theory Spec2Isabelle
  imports Main
begin

section \<open>Values of the host language\<close>

text \<open>
  The middleware of \<^verbatim>\<open>src/index.ts\<close> inspects its inputs at run time with
  \<^verbatim>\<open>typeof\<close>, property reads and calls, so the payload of an action is a
  dynamically typed value. The model covers:
  \<^item> the primitives \<^verbatim>\<open>undefined\<close>, \<^verbatim>\<open>null\<close>, booleans, (integer) numbers and strings;
  \<^item> plain objects, as the list of their properties (the first binding of a key counts);
  \<^item> callables, with their own properties (a function is an object too) and their
    behaviour when invoked.
  A callable is either an ordinary function, described by the value every invocation of it
  returns, or the \<^verbatim>\<open>then\<close> method of a thenable, described by the settlement it
  reports to the handlers it is given. A promise is an object whose \<^verbatim>\<open>then\<close> member
  is such a method. Callables that throw, property getters and patched prototypes of the
  primitives are outside the model.
\<close>

datatype jsval =
    JUndefined
  | JNull
  | JBool bool
  | JNum int
  | JStr string
  | JObj "(string \<times> jsval) list"
  | JFun behaviour "(string \<times> jsval) list"
and behaviour =
    Returns jsval
  | Fulfils jsval
  | Rejects jsval
  | Unsettled

datatype js_error = TypeError

text \<open>The operator \<^verbatim>\<open>typeof\<close>; note that \<^verbatim>\<open>typeof null\<close> is \<^verbatim>\<open>"object"\<close>.\<close>

fun typeof :: "jsval \<Rightarrow> string" where
  "typeof JUndefined = ''undefined''"
| "typeof JNull = ''object''"
| "typeof (JBool b) = ''boolean''"
| "typeof (JNum n) = ''number''"
| "typeof (JStr s) = ''string''"
| "typeof (JObj ps) = ''object''"
| "typeof (JFun f ps) = ''function''"

text \<open>Truthiness, as the operators \<^verbatim>\<open>!\<close>, \<^verbatim>\<open>&&\<close> and \<^verbatim>\<open>? :\<close> see a value.\<close>

fun truthy :: "jsval \<Rightarrow> bool" where
  "truthy JUndefined = False"
| "truthy JNull = False"
| "truthy (JBool b) = b"
| "truthy (JNum n) = (n \<noteq> 0)"
| "truthy (JStr s) = (s \<noteq> [])"
| "truthy (JObj ps) = True"
| "truthy (JFun f ps) = True"

text \<open>
  Reading a property of a value that is neither \<^verbatim>\<open>null\<close> nor \<^verbatim>\<open>undefined\<close>:
  a missing property, and any property of a primitive, reads as \<^verbatim>\<open>undefined\<close>.
\<close>

fun member :: "jsval \<Rightarrow> string \<Rightarrow> jsval" where
  "member (JObj ps) k = (case map_of ps k of None \<Rightarrow> JUndefined | Some v \<Rightarrow> v)"
| "member (JFun f ps) k = (case map_of ps k of None \<Rightarrow> JUndefined | Some v \<Rightarrow> v)"
| "member v k = JUndefined"

text \<open>The property read \<^verbatim>\<open>v.k\<close> itself raises a TypeError on \<^verbatim>\<open>null\<close> and \<^verbatim>\<open>undefined\<close>.\<close>

definition getprop :: "jsval \<Rightarrow> string \<Rightarrow> js_error + jsval" where
  "getprop v k = (if v = JNull \<or> v = JUndefined then Inl TypeError else Inr (member v k))"

text \<open>
  The call \<^verbatim>\<open>f()\<close> without arguments. Calling what is not a function raises a
  TypeError. A \<^verbatim>\<open>then\<close> method called without handlers returns a promise with the
  settlement of its thenable.
\<close>

definition promiseOf :: "behaviour \<Rightarrow> jsval" where
  "promiseOf s = JObj [(''then'', JFun s [])]"

fun call :: "jsval \<Rightarrow> js_error + jsval" where
  "call (JFun (Returns v) ps) = Inr v"
| "call (JFun s ps) = Inr (promiseOf s)"
| "call v = Inl TypeError"

text \<open>\<^verbatim>\<open>Promise.resolve(v)\<close>, \<^verbatim>\<open>Promise.reject(e)\<close> and \<^verbatim>\<open>new Error(msg)\<close>.\<close>

definition Promise_resolve :: "jsval \<Rightarrow> jsval" where
  "Promise_resolve v = promiseOf (Fulfils v)"

definition Promise_reject :: "jsval \<Rightarrow> jsval" where
  "Promise_reject e = promiseOf (Rejects e)"

definition Error :: "string \<Rightarrow> jsval" where
  "Error msg = JObj [(''message'', JStr msg)]"

section \<open>The data model of the middleware\<close>

text \<open>
  The interface \<^verbatim>\<open>Action\<close>: \<^verbatim>\<open>type\<close> is required, the other three properties are
  optional. \<open>None\<close> is an absent property, \<open>Some JUndefined\<close> a property that is present
  with the value \<^verbatim>\<open>undefined\<close>; reading either one gives \<^verbatim>\<open>undefined\<close>.
\<close>

record action =
  type :: string
  payload :: "jsval option"
  meta :: "jsval option"
  error :: "jsval option"

fun read :: "jsval option \<Rightarrow> jsval" where
  "read None = JUndefined"
| "read (Some v) = v"

text \<open>The interface \<^verbatim>\<open>Types\<close>, the enum \<^verbatim>\<open>DefaultTypes\<close> and the interface \<^verbatim>\<open>Config\<close>.\<close>

record Types =
  pending :: string
  fulfilled :: string
  rejected :: string

definition DefaultTypes :: Types where
  "DefaultTypes = \<lparr>pending = ''PENDING'', fulfilled = ''FULFILLED'', rejected = ''REJECTED''\<rparr>"

record Config =
  types :: "Types option"
  typeDelimiter :: "string option"

section \<open>isPromise\<close>

definition isPromise :: "jsval \<Rightarrow> bool" where
  "isPromise v \<longleftrightarrow>
     v \<noteq> JNull \<and> typeof v = ''object'' \<and> typeof (member v ''then'') = ''function''"

section \<open>destructureAction\<close>

record destructured =
  promise :: jsval
  data :: jsval

text \<open>
  The two tests on \<^verbatim>\<open>payload.promise\<close> are two separate \<^verbatim>\<open>if\<close> statements: both
  are evaluated, the second after the first, and the second overwrites the first.
\<close>

definition destructureAction :: "action \<Rightarrow> js_error + destructured" where
  "destructureAction a =
     (let p = read (payload a) in
      if isPromise p then Inr \<lparr>promise = p, data = JNull\<rparr>
      else if typeof p = ''function'' then
        (case call p of
           Inl e \<Rightarrow> Inl e
         | Inr r \<Rightarrow> Inr \<lparr>promise = r, data = JNull\<rparr>)
      else if typeof p = ''object'' then
        (case getprop p ''data'' of
           Inl e \<Rightarrow> Inl e
         | Inr d \<Rightarrow>
             (case getprop p ''promise'' of
                Inl e \<Rightarrow> Inl e
              | Inr f \<Rightarrow>
                  (case (if typeof f = ''function'' then call f else Inr JNull) of
                     Inl e \<Rightarrow> Inl e
                   | Inr r \<Rightarrow>
                       Inr \<lparr>promise = (if isPromise f then f else r), data = d\<rparr>)))
      else Inr \<lparr>promise = JNull, data = JNull\<rparr>)"

section \<open>createAction\<close>

text \<open>
  The argument of \<^verbatim>\<open>createAction\<close> is destructured as
  \<^verbatim>\<open>{ asyncType, asyncTypeDelimiter, ...action }\<close>: an action with two more properties.
  \<^verbatim>\<open>Config\<close> declares the delimiter optional, so it is a string or \<^verbatim>\<open>undefined\<close>.
\<close>

record createAction_args = action +
  asyncType :: string
  asyncTypeDelimiter :: "string option"

text \<open>
  \<^verbatim>\<open>Array.prototype.join\<close> on an array of strings: the separator \<^verbatim>\<open>undefined\<close>
  stands for a comma.
\<close>

fun join :: "string list \<Rightarrow> string option \<Rightarrow> string" where
  "join [] sep = []"
| "join [x] sep = x"
| "join (x # xs) sep = x @ (case sep of None \<Rightarrow> '','' | Some s \<Rightarrow> s) @ join xs sep"

definition createAction :: "createAction_args \<Rightarrow> action" where
  "createAction x =
     \<lparr>type = join [type x, asyncType x] (asyncTypeDelimiter x),
      payload =
        (if read (payload x) = JNull \<or> typeof (read (payload x)) = ''undefined''
         then None else Some (read (payload x))),
      meta = (if read (meta x) \<noteq> JUndefined then Some (read (meta x)) else None),
      error = (if truthy (read (error x)) then Some (read (error x)) else None)\<rparr>"

section \<open>Effects and results of a dispatch\<close>

text \<open>
  What the middleware does to its surroundings is recorded in the order it happens: a line
  written with \<^verbatim>\<open>console.log\<close>, an action handed to \<^verbatim>\<open>next\<close>, an action handed to
  \<^verbatim>\<open>dispatch\<close>. The value \<^verbatim>\<open>next\<close> returns is given by a function; \<^verbatim>\<open>next\<close> and
  \<^verbatim>\<open>dispatch\<close> are assumed to return.
\<close>

datatype effect =
    ConsoleLog "jsval list"
  | Next action
  | Dispatch action

text \<open>\<^verbatim>\<open>createAction\<close> starts with \<^verbatim>\<open>console.log('payload', action.payload)\<close>.\<close>

definition createAction_log :: "createAction_args \<Rightarrow> effect" where
  "createAction_log x = ConsoleLog [JStr ''payload'', read (payload x)]"

text \<open>
  The promise that \<^verbatim>\<open>then\<close> returns settles with what the handler it ran returned
  or threw: \<^verbatim>\<open>{ value, action }\<close>, or an error.
\<close>

datatype settled =
    ResolvesTo jsval action
  | RejectsWith jsval
  | StaysPending

text \<open>
  A dispatch returns a value, throws, or returns a promise; in the last case the effects
  of the handler that runs at settlement are listed with the promise.
\<close>

datatype outcome =
    Returned jsval
  | Thrown js_error
  | ReturnedPromise "effect list" settled

definition error_object :: "js_error \<Rightarrow> jsval" where
  "error_object e = JObj [(''name'', JStr ''TypeError'')]"

definition dispatch_call :: "jsval \<Rightarrow> action \<Rightarrow> js_error + effect list" where
  "dispatch_call dispatch a =
     (if typeof dispatch = ''function'' then Inr [Dispatch a] else Inl TypeError)"

section \<open>createPromise\<close>

text \<open>The default value of the parameter \<^verbatim>\<open>config\<close> replaces a missing argument only.\<close>

definition default_config :: Config where
  "default_config = \<lparr>types = Some DefaultTypes, typeDelimiter = Some ''_''\<rparr>"

fun config_of :: "Config option \<Rightarrow> Config" where
  "config_of None = default_config"
| "config_of (Some c) = c"

text \<open>The two handlers given to \<^verbatim>\<open>then\<close> (STEP 4).\<close>

definition onFulfilled ::
  "Types \<Rightarrow> string option \<Rightarrow> jsval \<Rightarrow> action \<Rightarrow> jsval \<Rightarrow> effect list \<times> settled" where
  "onFulfilled ts delim dispatch a v =
     (let args = \<lparr>type = type a, payload = Some v, meta = Some (read (meta a)),
                  error = Some (JBool False), asyncType = fulfilled ts,
                  asyncTypeDelimiter = delim\<rparr>;
          fulfilledAction = createAction args
      in case dispatch_call dispatch fulfilledAction of
           Inl e \<Rightarrow> ([createAction_log args], RejectsWith (error_object e))
         | Inr es \<Rightarrow> (createAction_log args # es, ResolvesTo v fulfilledAction))"

definition onRejected ::
  "Types \<Rightarrow> string option \<Rightarrow> jsval \<Rightarrow> action \<Rightarrow> jsval \<Rightarrow> effect list \<times> settled" where
  "onRejected ts delim dispatch a err =
     (let args = \<lparr>type = type a, payload = Some err, meta = Some (read (meta a)),
                  error = Some (JBool True), asyncType = rejected ts,
                  asyncTypeDelimiter = delim\<rparr>;
          rejectedAction = createAction args
      in case dispatch_call dispatch rejectedAction of
           Inl e \<Rightarrow> ([createAction_log args], RejectsWith (error_object e))
         | Inr es \<Rightarrow> (createAction_log args # es, RejectsWith err))"

text \<open>
  The call \<^verbatim>\<open>promise.then(onFulfilled, onRejected)\<close> on a value that is neither
  \<^verbatim>\<open>null\<close> nor \<^verbatim>\<open>undefined\<close>. A \<^verbatim>\<open>then\<close> member that is not callable raises a
  TypeError; an ordinary function ignores the handlers; the \<^verbatim>\<open>then\<close> method of a
  thenable runs one handler, or none.
\<close>

definition then_call ::
  "jsval \<Rightarrow> (jsval \<Rightarrow> effect list \<times> settled) \<Rightarrow> (jsval \<Rightarrow> effect list \<times> settled) \<Rightarrow> outcome" where
  "then_call p onF onR =
     (case member p ''then'' of
        JFun (Returns r) ps \<Rightarrow> Returned r
      | JFun (Fulfils v) ps \<Rightarrow> ReturnedPromise (fst (onF v)) (snd (onF v))
      | JFun (Rejects e) ps \<Rightarrow> ReturnedPromise (fst (onR e)) (snd (onR e))
      | JFun Unsettled ps \<Rightarrow> ReturnedPromise [] StaysPending
      | _ \<Rightarrow> Thrown TypeError)"

text \<open>
  The innermost function, \<^verbatim>\<open>(action) => ...\<close>, with \<^verbatim>\<open>types\<close>, \<^verbatim>\<open>typeDelimiter\<close>,
  \<^verbatim>\<open>dispatch\<close> and \<^verbatim>\<open>next\<close> in scope. STEP 2 passes the action on when the value that
  \<^verbatim>\<open>destructureAction\<close> found is a promise, and when it is falsy. In STEP 3 the
  argument \<^verbatim>\<open>types.pending\<close> is evaluated before \<^verbatim>\<open>createAction\<close> and \<^verbatim>\<open>next\<close>
  are called.
\<close>

definition sequencer :: "Config \<Rightarrow> jsval \<Rightarrow> (action \<Rightarrow> jsval) \<Rightarrow> action \<Rightarrow> effect list \<times> outcome" where
  "sequencer c dispatch next a =
     (case destructureAction a of
        Inl e \<Rightarrow> ([], Thrown e)
      | Inr d \<Rightarrow>
          if isPromise (promise d) then
            ([Next (a\<lparr>payload := Some (promise d)\<rparr>)],
             Returned (next (a\<lparr>payload := Some (promise d)\<rparr>)))
          else if \<not> truthy (promise d) then ([Next a], Returned (next a))
          else
            (case types c of
               None \<Rightarrow> ([], Thrown TypeError)
             | Some ts \<Rightarrow>
                 (let args = \<lparr>type = type a, payload = Some (data d),
                              meta = Some (read (meta a)), error = Some (JBool False),
                              asyncType = pending ts,
                              asyncTypeDelimiter = typeDelimiter c\<rparr>
                  in ([createAction_log args, Next (createAction args)],
                      then_call (promise d)
                        (onFulfilled ts (typeDelimiter c) dispatch a)
                        (onRejected ts (typeDelimiter c) dispatch a)))))"

text \<open>
  \<^verbatim>\<open>createPromise(config)\<close> returns \<^verbatim>\<open>({ dispatch }) => (next) => (action) => ...\<close>;
  destructuring its argument reads the member \<^verbatim>\<open>dispatch\<close>.
\<close>

definition createPromise ::
  "Config option \<Rightarrow> jsval \<Rightarrow> js_error + ((action \<Rightarrow> jsval) \<Rightarrow> action \<Rightarrow> effect list \<times> outcome)" where
  "createPromise config api =
     (case getprop api ''dispatch'' of
        Inl e \<Rightarrow> Inl e
      | Inr dispatch \<Rightarrow> Inr (sequencer (config_of config) dispatch))"

section \<open>The default export\<close>

text \<open>
  The notice written in development mode (its text is shortened here). The global
  \<^verbatim>\<open>process\<close> is a parameter; it is declared, as under Node.
\<close>

definition upgrade_notice :: jsval where
  "upgrade_notice = JStr ''[REDUX PROMISE MIDDLEWARE]: As of version 6.0.0, the middleware library supports both preconfigured and custom configured middleware.''"

definition development :: "jsval \<Rightarrow> bool" where
  "development process \<longleftrightarrow>
     truthy process \<and> truthy (member process ''env'') \<and>
     member (member process ''env'') ''NODE_ENV'' = JStr ''development''"

text \<open>
  The result is the effects and the returned value: \<open>None\<close> is \<^verbatim>\<open>null\<close>, \<open>Some f\<close>
  the function that \<^verbatim>\<open>createPromise()({ dispatch })\<close> returned.
\<close>

definition middleware ::
  "jsval \<Rightarrow> jsval \<Rightarrow>
   js_error + (effect list \<times> ((action \<Rightarrow> jsval) \<Rightarrow> action \<Rightarrow> effect list \<times> outcome) option)" where
  "middleware process api =
     (case getprop api ''dispatch'' of
        Inl e \<Rightarrow> Inl e
      | Inr dispatch \<Rightarrow>
          if typeof dispatch = ''function'' then
            (case createPromise None (JObj [(''dispatch'', dispatch)]) of
               Inl e \<Rightarrow> Inl e
             | Inr f \<Rightarrow> Inr ([], Some f))
          else if development process then Inr ([ConsoleLog [upgrade_notice]], None)
          else Inr ([], None))"

section \<open>A whole dispatch\<close>

text \<open>
  \<^verbatim>\<open>createPromise(config)(api)(next)(action)\<close>: the three stages applied one after the
  other.
\<close>

definition apply_middleware ::
  "Config option \<Rightarrow> jsval \<Rightarrow> (action \<Rightarrow> jsval) \<Rightarrow> action \<Rightarrow> js_error + effect list \<times> outcome" where
  "apply_middleware config api next a =
     (case createPromise config api of
        Inl e \<Rightarrow> Inl e
      | Inr f \<Rightarrow> Inr (f next a))"

section \<open>Basic facts\<close>

lemmas dispatch_defs =
  apply_middleware_def createPromise_def getprop_def sequencer_def destructureAction_def
  isPromise_def

lemma typeof_function_iff: "typeof v = ''function'' \<longleftrightarrow> (\<exists>f ps. v = JFun f ps)"
  by (cases v) simp_all

lemma typeof_object_iff: "typeof v = ''object'' \<longleftrightarrow> v = JNull \<or> (\<exists>ps. v = JObj ps)"
  by (cases v) simp_all

lemma typeof_undefined_iff: "typeof v = ''undefined'' \<longleftrightarrow> v = JUndefined"
  by (cases v) simp_all

lemma call_function: "typeof v = ''function'' \<Longrightarrow> \<exists>r. call v = Inr r"
proof -
  assume "typeof v = ''function''"
  then obtain f ps where v: "v = JFun f ps"
    by (auto simp: typeof_function_iff)
  show ?thesis
    unfolding v by (cases f) simp_all
qed

text \<open>No value is both callable and a promise: \<^verbatim>\<open>typeof\<close> gives one answer.\<close>

lemma not_isPromise_function: "typeof v = ''function'' \<Longrightarrow> \<not> isPromise v"
  by (simp add: isPromise_def)

lemma isPromise_Promise_resolve: "isPromise (Promise_resolve v)"
  by (simp add: isPromise_def Promise_resolve_def promiseOf_def)

lemma isPromise_Promise_reject: "isPromise (Promise_reject e)"
  by (simp add: isPromise_def Promise_reject_def promiseOf_def)

text \<open>Every payload but \<^verbatim>\<open>null\<close> is destructured without an error.\<close>

lemma destructureAction_returns:
  assumes "read (payload a) \<noteq> JNull"
  shows "\<exists>d. destructureAction a = Inr d"
proof (cases "typeof (read (payload a)) = ''function''")
  case True
  then obtain r where "call (read (payload a)) = Inr r"
    using call_function by blast
  with True show ?thesis
    by (simp add: destructureAction_def not_isPromise_function)
next
  case nf: False
  show ?thesis
  proof (cases "typeof (read (payload a)) = ''object''")
    case False
    with nf show ?thesis
      by (simp add: destructureAction_def Let_def)
  next
    case True
    with assms obtain ps where p: "read (payload a) = JObj ps"
      by (auto simp: typeof_object_iff)
    show ?thesis
    proof (cases "typeof (member (JObj ps) ''promise'') = ''function''")
      case True
      then obtain r where "call (member (JObj ps) ''promise'') = Inr r"
        using call_function by blast
      with True p show ?thesis
        by (simp add: destructureAction_def getprop_def Let_def)
    next
      case False
      with p show ?thesis
        by (simp add: destructureAction_def getprop_def Let_def)
    qed
  qed
qed

section \<open>What STEP 2 lets through\<close>

text \<open>
  An action whose payload is itself a promise never reaches STEP 3: it is handed to
  \<^verbatim>\<open>next\<close> with the same payload, and the result of \<^verbatim>\<open>next\<close> is returned.
\<close>

lemma sequencer_promise_payload:
  assumes "isPromise (read (payload a))"
  shows "sequencer c dispatch next a =
     ([Next (a\<lparr>payload := Some (read (payload a))\<rparr>)],
      Returned (next (a\<lparr>payload := Some (read (payload a))\<rparr>)))"
  using assms by (simp add: sequencer_def destructureAction_def)

text \<open>
  STEP 3 is reached with a value that is truthy and not a promise; then the log line of
  \<^verbatim>\<open>createAction\<close> and the pending action are the synchronous effects.
\<close>

lemma sequencer_lifecycle:
  assumes "destructureAction a = Inr d" and "\<not> isPromise (promise d)" and "truthy (promise d)"
    and "types c = Some ts"
  shows "fst (sequencer c dispatch next a) =
     [ConsoleLog [JStr ''payload'', data d],
      Next (createAction \<lparr>type = type a, payload = Some (data d), meta = Some (read (meta a)),
              error = Some (JBool False), asyncType = pending ts,
              asyncTypeDelimiter = typeDelimiter c\<rparr>)]"
  using assms by (simp add: sequencer_def createAction_log_def Let_def)

text \<open>
  A payload whose \<^verbatim>\<open>typeof\<close> is neither \<^verbatim>\<open>"object"\<close> nor \<^verbatim>\<open>"function"\<close> (a
  number, a string, a boolean, \<^verbatim>\<open>undefined\<close>): the one effect is \<^verbatim>\<open>next(action)\<close>
  on the input itself, and its result is returned. This holds for every configuration.
\<close>

lemma scalar_payload_passthrough:
  assumes "typeof (read (payload a)) \<noteq> ''object''"
    and "typeof (read (payload a)) \<noteq> ''function''"
    and "api \<noteq> JNull" and "api \<noteq> JUndefined"
  shows "apply_middleware config api next a = Inr ([Next a], Returned (next a))"
  using assms by (simp add: dispatch_defs Let_def)

lemma scalar_payload_passthrough_example:
  "apply_middleware None (JObj [(''dispatch'', JFun (Returns JUndefined) [])]) (\<lambda>a. JStr ''ok'')
     \<lparr>type = ''SET'', payload = Some (JNum 7), meta = None, error = None\<rparr> =
   Inr ([Next \<lparr>type = ''SET'', payload = Some (JNum 7), meta = None, error = None\<rparr>],
        Returned (JStr ''ok''))"
  by (simp add: scalar_payload_passthrough)

text \<open>
  STEP 4, when \<^verbatim>\<open>dispatch\<close> is callable and the \<^verbatim>\<open>then\<close> member of the value is
  the method of a thenable that fulfils, or rejects: the handler builds its action with
  the delimiter of the configuration, dispatches it, and settles the returned promise.
\<close>

lemma sequencer_lifecycle_fulfils:
  assumes "destructureAction a = Inr d" and "\<not> isPromise (promise d)" and "truthy (promise d)"
    and "types c = Some ts" and "typeof dispatch = ''function''"
    and "member (promise d) ''then'' = JFun (Fulfils v) ps"
  shows "snd (sequencer c dispatch next a) =
     ReturnedPromise
       [ConsoleLog [JStr ''payload'', v],
        Dispatch (createAction \<lparr>type = type a, payload = Some v, meta = Some (read (meta a)),
              error = Some (JBool False), asyncType = fulfilled ts,
              asyncTypeDelimiter = typeDelimiter c\<rparr>)]
       (ResolvesTo v
         (createAction \<lparr>type = type a, payload = Some v, meta = Some (read (meta a)),
              error = Some (JBool False), asyncType = fulfilled ts,
              asyncTypeDelimiter = typeDelimiter c\<rparr>))"
  using assms
  by (simp add: sequencer_def then_call_def onFulfilled_def dispatch_call_def
      createAction_log_def Let_def)

lemma sequencer_lifecycle_rejects:
  assumes "destructureAction a = Inr d" and "\<not> isPromise (promise d)" and "truthy (promise d)"
    and "types c = Some ts" and "typeof dispatch = ''function''"
    and "member (promise d) ''then'' = JFun (Rejects e) ps"
  shows "snd (sequencer c dispatch next a) =
     ReturnedPromise
       [ConsoleLog [JStr ''payload'', e],
        Dispatch (createAction \<lparr>type = type a, payload = Some e, meta = Some (read (meta a)),
              error = Some (JBool True), asyncType = rejected ts,
              asyncTypeDelimiter = typeDelimiter c\<rparr>)]
       (RejectsWith e)"
  using assms
  by (simp add: sequencer_def then_call_def onRejected_def dispatch_call_def
      createAction_log_def Let_def)

lemma createAction_type:
  "type (createAction \<lparr>type = t, payload = p, meta = m, error = e, asyncType = tok,
      asyncTypeDelimiter = sep\<rparr>) = t @ (case sep of None \<Rightarrow> '','' | Some s \<Rightarrow> s) @ tok"
  by (simp add: createAction_def)

text \<open>The three stages, applied to an argument that holds \<^verbatim>\<open>dispatch\<close>.\<close>

lemma apply_middleware_sequencer:
  "apply_middleware cfg (JObj [(''dispatch'', dispatch)]) next a =
     Inr (sequencer (config_of cfg) dispatch next a)"
  by (simp add: apply_middleware_def createPromise_def getprop_def)

text \<open>
  The types of the three derived actions of a dispatch that reaches STEP 3, for any
  configuration that has \<^verbatim>\<open>types\<close>: the separator is the delimiter of the configuration,
  and a comma when there is none.
\<close>

lemma lifecycle_derived_types:
  assumes "destructureAction a = Inr d" and "\<not> isPromise (promise d)" and "truthy (promise d)"
    and "types (config_of cfg) = Some ts" and "typeof dispatch = ''function''"
    and "sep = (case typeDelimiter (config_of cfg) of None \<Rightarrow> '','' | Some s \<Rightarrow> s)"
  shows "\<exists>pa out. apply_middleware cfg (JObj [(''dispatch'', dispatch)]) next a =
            Inr ([ConsoleLog [JStr ''payload'', data d], Next pa], out) \<and>
          type pa = type a @ sep @ pending ts \<and>
          (\<forall>v ps. member (promise d) ''then'' = JFun (Fulfils v) ps \<longrightarrow>
             (\<exists>fa. out = ReturnedPromise [ConsoleLog [JStr ''payload'', v], Dispatch fa]
                           (ResolvesTo v fa) \<and>
                   type fa = type a @ sep @ fulfilled ts)) \<and>
          (\<forall>e ps. member (promise d) ''then'' = JFun (Rejects e) ps \<longrightarrow>
             (\<exists>ra. out = ReturnedPromise [ConsoleLog [JStr ''payload'', e], Dispatch ra]
                           (RejectsWith e) \<and>
                   type ra = type a @ sep @ rejected ts))"
proof -
  let ?r = "sequencer (config_of cfg) dispatch next a"
  let ?pa = "createAction \<lparr>type = type a, payload = Some (data d), meta = Some (read (meta a)),
              error = Some (JBool False), asyncType = pending ts,
              asyncTypeDelimiter = typeDelimiter (config_of cfg)\<rparr>"
  have s: "fst ?r = [ConsoleLog [JStr ''payload'', data d], Next ?pa]"
    using assms(1-4) by (rule sequencer_lifecycle)
  have f: "\<exists>fa. snd ?r = ReturnedPromise [ConsoleLog [JStr ''payload'', v], Dispatch fa]
                           (ResolvesTo v fa) \<and> type fa = type a @ sep @ fulfilled ts"
    if "member (promise d) ''then'' = JFun (Fulfils v) ps" for v ps
    using sequencer_lifecycle_fulfils [OF assms(1-5) that] assms(6)
    by (simp add: createAction_type)
  have r: "\<exists>ra. snd ?r = ReturnedPromise [ConsoleLog [JStr ''payload'', e], Dispatch ra]
                           (RejectsWith e) \<and> type ra = type a @ sep @ rejected ts"
    if "member (promise d) ''then'' = JFun (Rejects e) ps" for e ps
    using sequencer_lifecycle_rejects [OF assms(1-5) that] assms(6)
    by (simp add: createAction_type)
  have run: "apply_middleware cfg (JObj [(''dispatch'', dispatch)]) next a =
      Inr ([ConsoleLog [JStr ''payload'', data d], Next ?pa], snd ?r)"
    using s by (simp add: apply_middleware_sequencer prod_eq_iff)
  have tp: "type ?pa = type a @ sep @ pending ts"
    using assms(6) by (simp add: createAction_type)
  have "apply_middleware cfg (JObj [(''dispatch'', dispatch)]) next a =
            Inr ([ConsoleLog [JStr ''payload'', data d], Next ?pa], snd ?r) \<and>
          type ?pa = type a @ sep @ pending ts \<and>
          (\<forall>v ps. member (promise d) ''then'' = JFun (Fulfils v) ps \<longrightarrow>
             (\<exists>fa. snd ?r = ReturnedPromise [ConsoleLog [JStr ''payload'', v], Dispatch fa]
                           (ResolvesTo v fa) \<and>
                   type fa = type a @ sep @ fulfilled ts)) \<and>
          (\<forall>e ps. member (promise d) ''then'' = JFun (Rejects e) ps \<longrightarrow>
             (\<exists>ra. snd ?r = ReturnedPromise [ConsoleLog [JStr ''payload'', e], Dispatch ra]
                           (RejectsWith e) \<and>
                   type ra = type a @ sep @ rejected ts))"
    using run tp f r by blast
  then show ?thesis
    by (intro exI)
qed

text \<open>The handlers of STEP 4, when \<^verbatim>\<open>dispatch\<close> is callable.\<close>

lemma onFulfilled_resolves:
  assumes "typeof dispatch = ''function''"
  shows "\<exists>fa. onFulfilled ts delim dispatch a v =
           ([ConsoleLog [JStr ''payload'', v], Dispatch fa], ResolvesTo v fa) \<and>
         type fa = join [type a, fulfilled ts] delim \<and> error fa = None"
  using assms
  by (simp add: onFulfilled_def dispatch_call_def createAction_log_def createAction_def Let_def)

lemma onRejected_rethrows:
  assumes "typeof dispatch = ''function''"
  shows "\<exists>ra. onRejected ts delim dispatch a err =
           ([ConsoleLog [JStr ''payload'', err], Dispatch ra], RejectsWith err) \<and>
         type ra = join [type a, rejected ts] delim \<and> error ra = Some (JBool True)"
  using assms
  by (simp add: onRejected_def dispatch_call_def createAction_log_def createAction_def Let_def)

section \<open>The claims\<close>

subsection \<open>C1: a promise as payload\<close>

text \<open>
  C1 says that dispatching \<^verbatim>\<open>{type: "FETCH", payload: Promise.resolve(42)}\<close> with the
  default configuration forwards \<^verbatim>\<open>{type: "FETCH_PENDING"}\<close>, then
  \<^verbatim>\<open>{type: "FETCH_FULFILLED", payload: 42}\<close>, and resolves to the value and the fulfilled
  action. The code does none of it: STEP 2 tests \<^verbatim>\<open>isPromise(promise)\<close> and, the payload
  being a promise, hands the action itself to \<^verbatim>\<open>next\<close> and returns what \<^verbatim>\<open>next\<close>
  returns. The only effect is that one call.
\<close>

theorem dispatch_resolved_promise_passed_through:
  "apply_middleware None (JObj [(''dispatch'', dispatch)]) next
     \<lparr>type = ''FETCH'', payload = Some (Promise_resolve (JNum 42)), meta = None, error = None\<rparr> =
   Inr ([Next \<lparr>type = ''FETCH'', payload = Some (Promise_resolve (JNum 42)), meta = None,
                error = None\<rparr>],
        Returned (next \<lparr>type = ''FETCH'', payload = Some (Promise_resolve (JNum 42)),
                         meta = None, error = None\<rparr>))"
  by (simp add: dispatch_defs Promise_resolve_def promiseOf_def)

subsection \<open>C2: destructuring never throws\<close>

text \<open>
  C2 says that \<^verbatim>\<open>destructureAction\<close> never throws, whatever the payload, and that a
  \<^verbatim>\<open>null\<close> payload gives \<^verbatim>\<open>null\<close> for both outputs. On a \<^verbatim>\<open>null\<close> payload the
  code throws a TypeError: \<^verbatim>\<open>typeof null\<close> is \<^verbatim>\<open>"object"\<close>, so the third branch is
  taken and \<^verbatim>\<open>payload.data\<close> is read from \<^verbatim>\<open>null\<close>. (For every other payload a pair
  is returned: lemma \<open>destructureAction_returns\<close>.)
\<close>

theorem destructureAction_null_payload_throws:
  "destructureAction \<lparr>type = t, payload = Some JNull, meta = m, error = e\<rparr> = Inl TypeError"
  by (simp add: destructureAction_def isPromise_def getprop_def)

subsection \<open>C3: a promise that fails\<close>

text \<open>
  C3 says that dispatching \<^verbatim>\<open>{type: "FETCH", payload: Promise.reject(new Error("x"))}\<close>
  forwards a pending action, then \<^verbatim>\<open>{type: "FETCH_REJECTED", payload: Error("x"), error: true}\<close>,
  and that the returned promise rejects with the same error. In the code the action is
  handed to \<^verbatim>\<open>next\<close> as it is, as for C1: no pending action, no rejected action, and
  the result is what \<^verbatim>\<open>next\<close> returns.
\<close>

theorem dispatch_rejected_promise_passed_through:
  "apply_middleware None (JObj [(''dispatch'', dispatch)]) next
     \<lparr>type = ''FETCH'', payload = Some (Promise_reject (Error ''x'')), meta = None, error = None\<rparr> =
   Inr ([Next \<lparr>type = ''FETCH'', payload = Some (Promise_reject (Error ''x'')), meta = None,
                error = None\<rparr>],
        Returned (next \<lparr>type = ''FETCH'', payload = Some (Promise_reject (Error ''x'')),
                         meta = None, error = None\<rparr>))"
  by (simp add: dispatch_defs Promise_reject_def promiseOf_def)

subsection \<open>C4: a callable \<^verbatim>\<open>promise\<close> member\<close>

text \<open>
  C4: when the payload is a composite object whose \<^verbatim>\<open>promise\<close> member is callable, the
  member is invoked and the value it returns becomes the promise of the result, with
  \<^verbatim>\<open>payload.data\<close> as the data. Both tests on the member are evaluated, in the written
  order; the second one, \<^verbatim>\<open>isPromise\<close>, is false of every callable, so it cannot take
  the result back. That covers a member that is callable and has a \<^verbatim>\<open>then\<close> method
  as well.
\<close>

theorem destructureAction_callable_promise_member:
  assumes "read (payload a) = JObj ps"
    and "\<not> isPromise (JObj ps)"
    and "typeof (member (JObj ps) ''promise'') = ''function''"
  shows "\<not> isPromise (member (JObj ps) ''promise'') \<and>
         (\<exists>r. call (member (JObj ps) ''promise'') = Inr r \<and>
              destructureAction a = Inr \<lparr>promise = r, data = member (JObj ps) ''data''\<rparr>)"
proof -
  from assms(3) obtain r where r: "call (member (JObj ps) ''promise'') = Inr r"
    using call_function by blast
  have np: "\<not> isPromise (member (JObj ps) ''promise'')"
    using assms(3) by (rule not_isPromise_function)
  have "destructureAction a = Inr \<lparr>promise = r, data = member (JObj ps) ''data''\<rparr>"
    using assms r np by (simp add: destructureAction_def getprop_def Let_def)
  with r np show ?thesis by blast
qed

text \<open>
  The witness of C4: the \<^verbatim>\<open>promise\<close> member is a function that returns 7 and carries
  a \<^verbatim>\<open>then\<close> method of its own.
\<close>

theorem destructureAction_callable_promise_member_witness:
  "\<not> isPromise (JFun (Returns (JNum 7)) [(''then'', JFun (Fulfils (JNum 1)) [])]) \<and>
   destructureAction \<lparr>type = ''FETCH'',
      payload = Some (JObj [(''promise'', JFun (Returns (JNum 7)) [(''then'', JFun (Fulfils (JNum 1)) [])]),
                           (''data'', JStr ''optimistic'')]),
      meta = None, error = None\<rparr> =
   Inr \<lparr>promise = JNum 7, data = JStr ''optimistic''\<rparr>"
  using destructureAction_callable_promise_member [of "\<lparr>type = ''FETCH'',
      payload = Some (JObj [(''promise'', JFun (Returns (JNum 7)) [(''then'', JFun (Fulfils (JNum 1)) [])]),
                           (''data'', JStr ''optimistic'')]),
      meta = None, error = None\<rparr>"
      "[(''promise'', JFun (Returns (JNum 7)) [(''then'', JFun (Fulfils (JNum 1)) [])]),
        (''data'', JStr ''optimistic'')]"]
  by (simp add: isPromise_def)

subsection \<open>C5: the pending action\<close>

text \<open>
  C5 says that every action that carries a promise has its pending action forwarded at
  once, and that \<^verbatim>\<open>{type: "FETCH", payload: {promise: Promise.resolve(1), data: "optimistic"}}\<close>
  gives a pending action with the payload \<^verbatim>\<open>"optimistic"\<close>. In the code the promise
  found in the payload stops the dispatch at STEP 2: the action is handed to \<^verbatim>\<open>next\<close>
  with the promise as its payload, the optimistic data is dropped, and no pending action
  is built.
\<close>

theorem dispatch_optimistic_payload_passed_through:
  "apply_middleware None (JObj [(''dispatch'', dispatch)]) next
     \<lparr>type = ''FETCH'',
      payload = Some (JObj [(''promise'', Promise_resolve (JNum 1)), (''data'', JStr ''optimistic'')]),
      meta = None, error = None\<rparr> =
   Inr ([Next \<lparr>type = ''FETCH'', payload = Some (Promise_resolve (JNum 1)), meta = None,
                error = None\<rparr>],
        Returned (next \<lparr>type = ''FETCH'', payload = Some (Promise_resolve (JNum 1)),
                         meta = None, error = None\<rparr>))"
  by (simp add: dispatch_defs Promise_resolve_def promiseOf_def)

subsection \<open>C6: a scalar payload\<close>

text \<open>
  C6 says that an action whose payload is not a promise, not a function and not an object
  is forwarded once, unchanged. \<^verbatim>\<open>null\<close> is such a payload (the composite payloads
  are the non-null objects), and on \<^verbatim>\<open>null\<close> the code forwards nothing: the dispatch
  throws the TypeError of \<^verbatim>\<open>destructureAction\<close> before \<^verbatim>\<open>next\<close> is called,
  whatever the configuration. For every other such payload the claim holds: lemma
  \<open>scalar_payload_passthrough\<close>.
\<close>

theorem dispatch_null_payload_throws:
  "apply_middleware config (JObj [(''dispatch'', dispatch)]) next
     \<lparr>type = t, payload = Some JNull, meta = m, error = e\<rparr> = Inr ([], Thrown TypeError)"
  by (simp add: dispatch_defs)

subsection \<open>C7: the \<^verbatim>\<open>meta\<close> property\<close>

text \<open>
  C7 says that the built action has a \<^verbatim>\<open>meta\<close> property if and only if the source
  action defined one, so that an absent \<^verbatim>\<open>meta\<close> and a \<^verbatim>\<open>meta\<close> that is present
  with the value \<^verbatim>\<open>undefined\<close> stay apart. The counterexample to C7: the source defines
  \<^verbatim>\<open>meta: undefined\<close>, and the built action has no \<^verbatim>\<open>meta\<close>.
\<close>

theorem createAction_meta_undefined_counterexample:
  "\<not> ((meta (createAction \<lparr>type = ''FETCH'', payload = None, meta = Some JUndefined,
             error = None, asyncType = ''PENDING'', asyncTypeDelimiter = Some ''_''\<rparr>) \<noteq> None) =
       (meta \<lparr>type = ''FETCH'', payload = None, meta = Some JUndefined, error = None,
             asyncType = ''PENDING'', asyncTypeDelimiter = Some ''_''\<rparr> \<noteq> None))"
  by (simp add: createAction_def)

text \<open>
  C7 as amended: the test is \<^verbatim>\<open>action.meta !== undefined\<close>, so the built action has no
  \<^verbatim>\<open>meta\<close> exactly when the source has none or has one with the value \<^verbatim>\<open>undefined\<close>;
  any other \<^verbatim>\<open>meta\<close> (\<^verbatim>\<open>null\<close> too) is copied as it is.
\<close>

theorem createAction_meta_unless_undefined:
  "(meta (createAction x) = None) = (meta x = None \<or> meta x = Some JUndefined) \<and>
   (meta (createAction x) = None \<or> meta (createAction x) = meta x)"
  by (cases "meta x") (simp_all add: createAction_def)

text \<open>The witness of C7 as amended: \<^verbatim>\<open>meta: null\<close> is copied.\<close>

theorem createAction_meta_unless_undefined_witness:
  "meta (createAction \<lparr>type = ''FETCH'', payload = None, meta = Some JNull, error = None,
           asyncType = ''PENDING'', asyncTypeDelimiter = Some ''_''\<rparr>) = Some JNull"
  using createAction_meta_unless_undefined
    [of "\<lparr>type = ''FETCH'', payload = None, meta = Some JNull, error = None,
           asyncType = ''PENDING'', asyncTypeDelimiter = Some ''_''\<rparr>"]
  by auto

subsection \<open>C8: type, payload and error of a built action\<close>

text \<open>
  C8: the type of the built action is the base type, the delimiter and the token, joined
  (a delimiter that is \<^verbatim>\<open>undefined\<close> joins with a comma); the payload is there unless it
  is \<^verbatim>\<open>null\<close> or \<^verbatim>\<open>undefined\<close>; the error is there when the given flag is truthy, so
  \<^verbatim>\<open>error: false\<close> is never written.
\<close>

theorem createAction_type_payload_error:
  "type (createAction x) =
     type x @ (case asyncTypeDelimiter x of None \<Rightarrow> '','' | Some d \<Rightarrow> d) @ asyncType x \<and>
   payload (createAction x) =
     (if read (payload x) = JNull \<or> read (payload x) = JUndefined then None
      else Some (read (payload x))) \<and>
   error (createAction x) =
     (if truthy (read (error x)) then Some (read (error x)) else None) \<and>
   error (createAction x) \<noteq> Some (JBool False)"
  by (auto simp: createAction_def typeof_undefined_iff)

text \<open>The witness of C8: a fulfilled action without a value, built with \<^verbatim>\<open>error: false\<close>.\<close>

theorem createAction_type_payload_error_witness:
  "createAction \<lparr>type = ''FETCH'', payload = Some JUndefined, meta = None,
      error = Some (JBool False), asyncType = ''FULFILLED'', asyncTypeDelimiter = Some ''/''\<rparr> =
   \<lparr>type = ''FETCH/FULFILLED'', payload = None, meta = None, error = None\<rparr>"
  using createAction_type_payload_error
    [of "\<lparr>type = ''FETCH'', payload = Some JUndefined, meta = None,
      error = Some (JBool False), asyncType = ''FULFILLED'', asyncTypeDelimiter = Some ''/''\<rparr>"]
  by (simp add: createAction_def)

subsection \<open>C9: an explicit configuration is not merged with the defaults\<close>

text \<open>
  C9: whenever a dispatch reaches STEP 3, a configuration that gives \<^verbatim>\<open>types\<close> and no
  \<^verbatim>\<open>typeDelimiter\<close> joins every derived type with a comma, the delimiter being
  \<^verbatim>\<open>undefined\<close>: the type of the pending action handed to \<^verbatim>\<open>next\<close>, the type of
  the fulfilled action and the type of the rejected action handed to \<^verbatim>\<open>dispatch\<close>.
  The delimiter \<^verbatim>\<open>"_"\<close> and the default tokens are used, for all three, when no
  configuration is given.
\<close>

theorem explicit_config_not_merged:
  assumes "destructureAction a = Inr d" and "\<not> isPromise (promise d)" and "truthy (promise d)"
    and "typeof dispatch = ''function''"
  shows "(\<exists>pa out. apply_middleware (Some \<lparr>types = Some ts, typeDelimiter = None\<rparr>)
              (JObj [(''dispatch'', dispatch)]) next a =
            Inr ([ConsoleLog [JStr ''payload'', data d], Next pa], out) \<and>
          type pa = type a @ '','' @ pending ts \<and>
          (\<forall>v ps. member (promise d) ''then'' = JFun (Fulfils v) ps \<longrightarrow>
             (\<exists>fa. out = ReturnedPromise [ConsoleLog [JStr ''payload'', v], Dispatch fa]
                           (ResolvesTo v fa) \<and>
                   type fa = type a @ '','' @ fulfilled ts)) \<and>
          (\<forall>e ps. member (promise d) ''then'' = JFun (Rejects e) ps \<longrightarrow>
             (\<exists>ra. out = ReturnedPromise [ConsoleLog [JStr ''payload'', e], Dispatch ra]
                           (RejectsWith e) \<and>
                   type ra = type a @ '','' @ rejected ts))) \<and>
         (\<exists>pa out. apply_middleware None (JObj [(''dispatch'', dispatch)]) next a =
            Inr ([ConsoleLog [JStr ''payload'', data d], Next pa], out) \<and>
          type pa = type a @ ''_'' @ ''PENDING'' \<and>
          (\<forall>v ps. member (promise d) ''then'' = JFun (Fulfils v) ps \<longrightarrow>
             (\<exists>fa. out = ReturnedPromise [ConsoleLog [JStr ''payload'', v], Dispatch fa]
                           (ResolvesTo v fa) \<and>
                   type fa = type a @ ''_'' @ ''FULFILLED'')) \<and>
          (\<forall>e ps. member (promise d) ''then'' = JFun (Rejects e) ps \<longrightarrow>
             (\<exists>ra. out = ReturnedPromise [ConsoleLog [JStr ''payload'', e], Dispatch ra]
                           (RejectsWith e) \<and>
                   type ra = type a @ ''_'' @ ''REJECTED'')))"
proof (rule conjI)
  show "\<exists>pa out. apply_middleware (Some \<lparr>types = Some ts, typeDelimiter = None\<rparr>)
              (JObj [(''dispatch'', dispatch)]) next a =
            Inr ([ConsoleLog [JStr ''payload'', data d], Next pa], out) \<and>
          type pa = type a @ '','' @ pending ts \<and>
          (\<forall>v ps. member (promise d) ''then'' = JFun (Fulfils v) ps \<longrightarrow>
             (\<exists>fa. out = ReturnedPromise [ConsoleLog [JStr ''payload'', v], Dispatch fa]
                           (ResolvesTo v fa) \<and>
                   type fa = type a @ '','' @ fulfilled ts)) \<and>
          (\<forall>e ps. member (promise d) ''then'' = JFun (Rejects e) ps \<longrightarrow>
             (\<exists>ra. out = ReturnedPromise [ConsoleLog [JStr ''payload'', e], Dispatch ra]
                           (RejectsWith e) \<and>
                   type ra = type a @ '','' @ rejected ts))"
    by (rule lifecycle_derived_types [OF assms(1-3) _ assms(4)]) simp_all
  have "\<exists>pa out. apply_middleware None (JObj [(''dispatch'', dispatch)]) next a =
            Inr ([ConsoleLog [JStr ''payload'', data d], Next pa], out) \<and>
          type pa = type a @ ''_'' @ pending DefaultTypes \<and>
          (\<forall>v ps. member (promise d) ''then'' = JFun (Fulfils v) ps \<longrightarrow>
             (\<exists>fa. out = ReturnedPromise [ConsoleLog [JStr ''payload'', v], Dispatch fa]
                           (ResolvesTo v fa) \<and>
                   type fa = type a @ ''_'' @ fulfilled DefaultTypes)) \<and>
          (\<forall>e ps. member (promise d) ''then'' = JFun (Rejects e) ps \<longrightarrow>
             (\<exists>ra. out = ReturnedPromise [ConsoleLog [JStr ''payload'', e], Dispatch ra]
                           (RejectsWith e) \<and>
                   type ra = type a @ ''_'' @ rejected DefaultTypes))"
    by (rule lifecycle_derived_types [OF assms(1-3) _ assms(4)])
      (simp_all add: default_config_def)
  then show "\<exists>pa out. apply_middleware None (JObj [(''dispatch'', dispatch)]) next a =
            Inr ([ConsoleLog [JStr ''payload'', data d], Next pa], out) \<and>
          type pa = type a @ ''_'' @ ''PENDING'' \<and>
          (\<forall>v ps. member (promise d) ''then'' = JFun (Fulfils v) ps \<longrightarrow>
             (\<exists>fa. out = ReturnedPromise [ConsoleLog [JStr ''payload'', v], Dispatch fa]
                           (ResolvesTo v fa) \<and>
                   type fa = type a @ ''_'' @ ''FULFILLED'')) \<and>
          (\<forall>e ps. member (promise d) ''then'' = JFun (Rejects e) ps \<longrightarrow>
             (\<exists>ra. out = ReturnedPromise [ConsoleLog [JStr ''payload'', e], Dispatch ra]
                           (RejectsWith e) \<and>
                   type ra = type a @ ''_'' @ ''REJECTED''))"
    by (simp add: DefaultTypes_def)
qed

text \<open>
  The witness of C9: the configuration is \<^verbatim>\<open>{types: DefaultTypes}\<close>, and the payload is a
  function that returns a callable with a \<^verbatim>\<open>then\<close> method, which fulfils with 42 in the
  first dispatch and rejects with an error in the second. The derived types are
  \<^verbatim>\<open>"FETCH,PENDING"\<close>, \<^verbatim>\<open>"FETCH,FULFILLED"\<close> and \<^verbatim>\<open>"FETCH,REJECTED"\<close>.
\<close>

theorem explicit_config_not_merged_witness:
  "apply_middleware (Some \<lparr>types = Some DefaultTypes, typeDelimiter = None\<rparr>)
      (JObj [(''dispatch'', JFun (Returns JUndefined) [])]) (\<lambda>a. JUndefined)
      \<lparr>type = ''FETCH'',
       payload = Some (JFun (Returns (JFun (Returns JNull) [(''then'', JFun (Fulfils (JNum 42)) [])])) []),
       meta = None, error = None\<rparr> =
   Inr ([ConsoleLog [JStr ''payload'', JNull],
         Next \<lparr>type = ''FETCH,PENDING'', payload = None, meta = None, error = None\<rparr>],
        ReturnedPromise
          [ConsoleLog [JStr ''payload'', JNum 42],
           Dispatch \<lparr>type = ''FETCH,FULFILLED'', payload = Some (JNum 42), meta = None,
                      error = None\<rparr>]
          (ResolvesTo (JNum 42)
             \<lparr>type = ''FETCH,FULFILLED'', payload = Some (JNum 42), meta = None,
                error = None\<rparr>)) \<and>
   apply_middleware (Some \<lparr>types = Some DefaultTypes, typeDelimiter = None\<rparr>)
      (JObj [(''dispatch'', JFun (Returns JUndefined) [])]) (\<lambda>a. JUndefined)
      \<lparr>type = ''FETCH'',
       payload = Some (JFun (Returns (JFun (Returns JNull) [(''then'', JFun (Rejects (Error ''x'')) [])])) []),
       meta = None, error = None\<rparr> =
   Inr ([ConsoleLog [JStr ''payload'', JNull],
         Next \<lparr>type = ''FETCH,PENDING'', payload = None, meta = None, error = None\<rparr>],
        ReturnedPromise
          [ConsoleLog [JStr ''payload'', Error ''x''],
           Dispatch \<lparr>type = ''FETCH,REJECTED'', payload = Some (Error ''x''), meta = None,
                      error = Some (JBool True)\<rparr>]
          (RejectsWith (Error ''x'')))"
proof -
  let ?f = "JFun (Returns JNull) [(''then'', JFun (Fulfils (JNum 42)) [])]"
  let ?r = "JFun (Returns JNull) [(''then'', JFun (Rejects (Error ''x'')) [])]"
  let ?af = "\<lparr>type = ''FETCH'', payload = Some (JFun (Returns ?f) []), meta = None, error = None\<rparr>"
  let ?ar = "\<lparr>type = ''FETCH'', payload = Some (JFun (Returns ?r) []), meta = None, error = None\<rparr>"
  have f1: "destructureAction ?af = Inr \<lparr>promise = ?f, data = JNull\<rparr>"
    by (simp add: destructureAction_def isPromise_def)
  have r1: "destructureAction ?ar = Inr \<lparr>promise = ?r, data = JNull\<rparr>"
    by (simp add: destructureAction_def isPromise_def)
  have f2: "\<not> isPromise (promise \<lparr>promise = ?f, data = JNull\<rparr>)"
    by (simp add: isPromise_def)
  have r2: "\<not> isPromise (promise \<lparr>promise = ?r, data = JNull\<rparr>)"
    by (simp add: isPromise_def)
  have f3: "truthy (promise \<lparr>promise = ?f, data = JNull\<rparr>)"
    by simp
  have r3: "truthy (promise \<lparr>promise = ?r, data = JNull\<rparr>)"
    by simp
  have h4: "typeof (JFun (Returns JUndefined) []) = ''function''"
    by simp
  have mf: "member (promise \<lparr>promise = ?f, data = JNull\<rparr>) ''then'' = JFun (Fulfils (JNum 42)) []"
    by simp
  have mr: "member (promise \<lparr>promise = ?r, data = JNull\<rparr>) ''then'' = JFun (Rejects (Error ''x'')) []"
    by simp
  from explicit_config_not_merged [OF f1 f2 f3 h4, of DefaultTypes "\<lambda>a. JUndefined"]
  obtain pa out where
    runf: "apply_middleware (Some \<lparr>types = Some DefaultTypes, typeDelimiter = None\<rparr>)
      (JObj [(''dispatch'', JFun (Returns JUndefined) [])]) (\<lambda>a. JUndefined) ?af =
      Inr ([ConsoleLog [JStr ''payload'', data \<lparr>promise = ?f, data = JNull\<rparr>], Next pa], out)"
    by blast
  from explicit_config_not_merged [OF r1 r2 r3 h4, of DefaultTypes "\<lambda>a. JUndefined"]
  obtain pa' out' where
    runr: "apply_middleware (Some \<lparr>types = Some DefaultTypes, typeDelimiter = None\<rparr>)
      (JObj [(''dispatch'', JFun (Returns JUndefined) [])]) (\<lambda>a. JUndefined) ?ar =
      Inr ([ConsoleLog [JStr ''payload'', data \<lparr>promise = ?r, data = JNull\<rparr>], Next pa'], out')"
    by blast
  have en: "Error ''x'' \<noteq> JNull" "typeof (Error ''x'') \<noteq> ''undefined''"
    by (simp_all add: Error_def)
  note defs = apply_middleware_def createPromise_def getprop_def sequencer_def isPromise_def
    createAction_def createAction_log_def then_call_def onFulfilled_def onRejected_def
    dispatch_call_def DefaultTypes_def Let_def
  have ef: "apply_middleware (Some \<lparr>types = Some DefaultTypes, typeDelimiter = None\<rparr>)
      (JObj [(''dispatch'', JFun (Returns JUndefined) [])]) (\<lambda>a. JUndefined) ?af =
   Inr ([ConsoleLog [JStr ''payload'', JNull],
         Next \<lparr>type = ''FETCH,PENDING'', payload = None, meta = None, error = None\<rparr>],
        ReturnedPromise
          [ConsoleLog [JStr ''payload'', JNum 42],
           Dispatch \<lparr>type = ''FETCH,FULFILLED'', payload = Some (JNum 42), meta = None,
                      error = None\<rparr>]
          (ResolvesTo (JNum 42)
             \<lparr>type = ''FETCH,FULFILLED'', payload = Some (JNum 42), meta = None,
                error = None\<rparr>))"
    using runf by (simp add: defs f1)
  have er: "apply_middleware (Some \<lparr>types = Some DefaultTypes, typeDelimiter = None\<rparr>)
      (JObj [(''dispatch'', JFun (Returns JUndefined) [])]) (\<lambda>a. JUndefined) ?ar =
   Inr ([ConsoleLog [JStr ''payload'', JNull],
         Next \<lparr>type = ''FETCH,PENDING'', payload = None, meta = None, error = None\<rparr>],
        ReturnedPromise
          [ConsoleLog [JStr ''payload'', Error ''x''],
           Dispatch \<lparr>type = ''FETCH,REJECTED'', payload = Some (Error ''x''), meta = None,
                      error = Some (JBool True)\<rparr>]
          (RejectsWith (Error ''x'')))"
    using runr by (simp add: defs r1 en)
  from ef er show ?thesis
    by simp
qed

subsection \<open>C10: the default export\<close>

text \<open>
  C10: called with an argument whose \<^verbatim>\<open>dispatch\<close> member is not a function, the default
  export returns \<^verbatim>\<open>null\<close>, after writing the notice when the process runs in
  development mode; when the member is a function it returns the middleware of the
  default configuration around that \<^verbatim>\<open>dispatch\<close>. (An argument that is \<^verbatim>\<open>null\<close> or
  \<^verbatim>\<open>undefined\<close> has no members: destructuring it is a TypeError.)
\<close>

theorem middleware_checks_dispatch:
  assumes "api \<noteq> JNull" and "api \<noteq> JUndefined"
  shows "(typeof (member api ''dispatch'') \<noteq> ''function'' \<longrightarrow>
            middleware process api =
              Inr (if development process then [ConsoleLog [upgrade_notice]] else [], None)) \<and>
         (typeof (member api ''dispatch'') = ''function'' \<longrightarrow>
            middleware process api =
              Inr ([], Some (sequencer default_config (member api ''dispatch''))))"
  using assms by (simp add: middleware_def createPromise_def getprop_def)

text \<open>
  The witness of C10: in development mode, the default export called with a configuration
  object, and called with a store.
\<close>

theorem middleware_checks_dispatch_witness:
  "middleware (JObj [(''env'', JObj [(''NODE_ENV'', JStr ''development'')])])
      (JObj [(''types'', JObj [(''fulfilled'', JStr ''success'')])]) =
     Inr ([ConsoleLog [upgrade_notice]], None) \<and>
   middleware (JObj [(''env'', JObj [(''NODE_ENV'', JStr ''development'')])])
      (JObj [(''dispatch'', JFun (Returns JUndefined) [])]) =
     Inr ([], Some (sequencer default_config (JFun (Returns JUndefined) [])))"
  using middleware_checks_dispatch
      [of "JObj [(''types'', JObj [(''fulfilled'', JStr ''success'')])]"
        "JObj [(''env'', JObj [(''NODE_ENV'', JStr ''development'')])]"]
    middleware_checks_dispatch
      [of "JObj [(''dispatch'', JFun (Returns JUndefined) [])]"
        "JObj [(''env'', JObj [(''NODE_ENV'', JStr ''development'')])]"]
  by (simp add: development_def)

end
